theory Spec2Isabelle
  imports Main "HOL-Library.Sublist"
begin

section \<open>Strings\<close>

text \<open>
  The TypeScript sources work on JavaScript strings. They are modelled as \<open>string\<close>
  (a list of characters); every locale identifier and every path the code handles is
  a sequence of code units, and the operations used (\<open>replace\<close>, \<open>startsWith\<close>,
  \<open>!==\<close>, template literals) treat the units one by one.

  \<open>subject.replace(pattern, replacement)\<close> with a string pattern replaces the first
  occurrence of the pattern only. The empty pattern occurs at position 0. Both call
  sites (\<open>i18n.ts\<close>, \<open>hygraphClient.ts\<close>) pass the one-character literals \<open>"_"\<close> and
  \<open>"-"\<close>; the special replacement patterns that start with a dollar sign occur in
  neither and are not part of the model.
\<close>

fun replace :: "string \<Rightarrow> string \<Rightarrow> string \<Rightarrow> string" where
  "replace [] pat rep = (if pat = [] then rep else [])"
| "replace (c # cs) pat rep =
     (if prefix pat (c # cs) then rep @ drop (length pat) (c # cs)
      else c # replace cs pat rep)"

text \<open>\<open>pathname.startsWith(s)\<close>.\<close>

definition startsWith :: "string \<Rightarrow> string \<Rightarrow> bool" where
  "startsWith subject s = prefix s subject"

section \<open>i18n.ts: the locale registry\<close>

text \<open>
  \<open>HygraphLocaleEnum\<close> is generated by the GraphQL code generator into
  \<open>./gql/graphql\<close> and is not part of the sources; \<open>Object.values\<close> of it, the list of
  the enumeration's string values in declaration order, is a parameter of everything
  below.

  The conversion of one entry in \<open>i18n.ts\<close>,
  \<open>hygraphLocale.replace("_", "-")\<close>, and the one in \<open>hygraphClient.ts\<close>,
  \<open>inputLocale.replace("-", "_")\<close>:
\<close>

definition toStandard :: "string \<Rightarrow> string" where
  "toStandard hygraphLocale = replace hygraphLocale ''_'' ''-''"

definition toSource :: "string \<Rightarrow> string" where
  "toSource inputLocale = replace inputLocale ''-'' ''_''"

text \<open>
  \<open>const locales = Object.values(HygraphLocaleEnum).map((hygraphLocale) =>
  hygraphLocale.replace("_", "-") as Locale)\<close>
\<close>

definition locales_of :: "string list \<Rightarrow> string list" where
  "locales_of hygraphLocaleEnum = map (\<lambda>hygraphLocale. toStandard hygraphLocale) hygraphLocaleEnum"

text \<open>\<open>const defaultLocale: Locale = "en"\<close>\<close>

definition defaultLocale_const :: string where
  "defaultLocale_const = ''en''"

record i18n =
  locales :: "string list"
  defaultLocale :: string

text \<open>
  The forms of an identifier: the source form joins its subtags with an underscore and
  holds no hyphen, the standard form joins them with a hyphen and holds no underscore.
\<close>

definition isSourceForm :: "string \<Rightarrow> bool" where
  "isSourceForm x = (CHR ''-'' \<notin> set x)"

definition isStandardForm :: "string \<Rightarrow> bool" where
  "isStandardForm x = (CHR ''_'' \<notin> set x)"

text \<open>
  The type \<open>Locale\<close> of \<open>i18n.ts\<close> is computed from the enumeration by the
  recursive conditional type
  \<^verbatim>\<open>type Replace<T, S, D, A = ""> =
    T extends `${infer L}${S}${infer R}` ? Replace<R, S, D, `${A}${L}${D}`> : `${A}${T}`\<close>
  instantiated with \<open>S = "_"\<close> and \<open>D = "-"\<close>, both one character long. The pattern
  \<open>`${infer L}${S}${infer R}`\<close> matches at the first occurrence of \<open>S\<close>: \<open>L\<close> is the
  text before it and \<open>R\<close> the text after it.
\<close>

fun inferLR :: "char \<Rightarrow> string \<Rightarrow> (string \<times> string) option" where
  "inferLR S [] = None"
| "inferLR S (c # T) =
     (if c = S then Some ([], T)
      else case inferLR S T of None \<Rightarrow> None | Some (L, R) \<Rightarrow> Some (c # L, R))"

function Replace :: "string \<Rightarrow> char \<Rightarrow> char \<Rightarrow> string \<Rightarrow> string" where
  "Replace T S D A =
     (case inferLR S T of
        Some (L, R) \<Rightarrow> Replace R S D (A @ L @ [D])
      | None \<Rightarrow> A @ T)"
  by pat_completeness auto
termination
proof (relation "measure (\<lambda>(T, S, D, A). length T)")
  show "wf (measure (\<lambda>(T, S, D, A). length T))"
    by simp
next
  fix T :: string and S D :: char and A :: string and x2 L R
  assume found: "inferLR S T = Some x2" and x2: "(L, R) = x2"
  have "inferLR S U = Some (K, R) \<Longrightarrow> length R < length U" for U K
    by (induction U arbitrary: K) (auto split: if_splits option.splits)
  with found x2 have "length R < length T"
    by metis
  then show "((R, S, D, A @ L @ [D]), T, S, D, A) \<in> measure (\<lambda>(T, S, D, A). length T)"
    by simp
qed

declare Replace.simps [simp del]

text \<open>
  \<open>type HygraphLocale = `${HygraphLocaleEnum}`\<close> is the union of the enumeration's
  values and \<open>type Locale = Replace<HygraphLocale, "_", "-">\<close> distributes over it. For
  an enumeration without members the checker gives no empty union: the template
  literal type is then \<open>string\<close>, which does not match the pattern of \<open>Replace\<close>, so
  that \<open>Locale\<close> is \<open>string\<close>. A type is therefore \<open>string\<close> or a union of string
  literals, given by the list of its members.
\<close>

datatype ts_type = TString | TUnion "string list"

definition LocaleType :: "string list \<Rightarrow> ts_type" where
  "LocaleType hygraphLocaleEnum =
     (if hygraphLocaleEnum = [] then TString
      else TUnion (map (\<lambda>T. Replace T (CHR ''_'') (CHR ''-'') []) hygraphLocaleEnum))"

text \<open>
  A string literal is assignable to \<open>string\<close>, and to a union of literals exactly when
  it is one of them.
\<close>

fun assignable :: "string \<Rightarrow> ts_type \<Rightarrow> bool" where
  "assignable literal TString = True"
| "assignable literal (TUnion members) = (literal \<in> set members)"

text \<open>
  The module \<open>i18n.ts\<close> as a whole. It has no check that runs: the two constants are
  computed and exported. The one guard is static, the annotation in
  \<open>const defaultLocale: Locale = "en"\<close> (``having :Locale ensures we can only choose
  between "en" and "pl-PL"''): when the literal is not assignable to \<open>Locale\<close> the type
  checker rejects the module and the build stops.
\<close>

datatype build_error = NotAssignable string

definition i18n_module :: "string list \<Rightarrow> build_error + i18n" where
  "i18n_module hygraphLocaleEnum =
     (if assignable defaultLocale_const (LocaleType hygraphLocaleEnum)
      then Inr \<lparr>locales = locales_of hygraphLocaleEnum, defaultLocale = defaultLocale_const\<rparr>
      else Inl (NotAssignable defaultLocale_const))"

section \<open>middleware.ts: the negotiator\<close>

text \<open>
  A request as the middleware reads it: \<open>request.url\<close>, \<open>request.nextUrl.pathname\<close>
  (the path component of the URL, without the query string) and the entries of
  \<open>request.headers\<close>.
\<close>

record request =
  request_url :: string
  nextUrl_pathname :: string
  request_headers :: "(string \<times> string) list"

text \<open>
  \<open>new URL(input, base)\<close> and \<open>NextResponse.redirect(url)\<close> belong to the platform and
  the framework. The model keeps the two arguments as the code passes them and does not
  parse them. The middleware returns a redirect response or, with a bare \<open>return\<close>,
  \<open>undefined\<close>, on which the framework lets the request continue unchanged.
\<close>

datatype URL = NewURL string string

datatype response = Redirect URL

text \<open>
  The two library calls of \<open>getLocale\<close>, \<open>new Negotiator({headers}).languages()\<close> of
  the package \<open>negotiator\<close> and \<open>match\<close> of \<open>@formatjs/intl-localematcher\<close>, are code
  of other packages. They are parameters of the model. Either call may throw (\<open>match\<close>
  throws a \<open>RangeError\<close> on a requested tag that is no language tag, such as \<open>*\<close>), and
  \<open>middleware.ts\<close> catches nothing: what a call throws leaves \<open>getLocale\<close> and the
  middleware. Each call made is recorded.
\<close>

datatype thrown = Thrown string

record libraries =
  Negotiator_languages :: "(string \<rightharpoonup> string) \<Rightarrow> thrown + string list"
  localematcher_match :: "string list \<Rightarrow> string list \<Rightarrow> string \<Rightarrow> thrown + string"

datatype call = Call_languages | Call_match

definition mapHeadersToObject :: "(string \<times> string) list \<Rightarrow> (string \<rightharpoonup> string)" where
  "mapHeadersToObject entries =
     foldl (\<lambda>headersObject (key, value). headersObject(key \<mapsto> value)) Map.empty entries"

definition getLocale :: "libraries \<Rightarrow> i18n \<Rightarrow> request \<Rightarrow> (thrown + string) \<times> call list" where
  "getLocale lib reg request =
     (let headers = mapHeadersToObject (request_headers request) in
      case Negotiator_languages lib headers of
        Inl e \<Rightarrow> (Inl e, [Call_languages])
      | Inr languages \<Rightarrow>
          (localematcher_match lib languages (locales reg) (defaultLocale reg),
           [Call_languages, Call_match]))"

text \<open>
  \<open>i18n.locales.every((locale) => !pathname.startsWith(`/${locale}/`) &&
  pathname !== `/${locale}`)\<close>
\<close>

definition pathnameIsMissingLocale :: "i18n \<Rightarrow> string \<Rightarrow> bool" where
  "pathnameIsMissingLocale reg pathname =
     list_all (\<lambda>locale. \<not> startsWith pathname (''/'' @ locale @ ''/'') \<and> pathname \<noteq> ''/'' @ locale)
       (locales reg)"

text \<open>The specification's name for the negation of that test.\<close>

definition hasLocalePrefix :: "string \<Rightarrow> i18n \<Rightarrow> bool" where
  "hasLocalePrefix path reg = (\<not> pathnameIsMissingLocale reg path)"

text \<open>The template literal \<open>`/${locale}/${pathname}`\<close> of the redirect.\<close>

definition buildRedirectTarget :: "string \<Rightarrow> string \<Rightarrow> string" where
  "buildRedirectTarget pathname locale = ''/'' @ locale @ ''/'' @ pathname"

definition middleware ::
  "libraries \<Rightarrow> i18n \<Rightarrow> request \<Rightarrow> (thrown + response option) \<times> call list" where
  "middleware lib reg request =
     (let pathname = nextUrl_pathname request in
      if \<not> pathnameIsMissingLocale reg pathname then (Inr None, [])
      else
        case getLocale lib reg request of
          (Inl e, calls) \<Rightarrow> (Inl e, calls)
        | (Inr locale, calls) \<Rightarrow>
            (Inr (Some (Redirect (NewURL (buildRedirectTarget pathname locale) (request_url request)))),
             calls))"

text \<open>The first argument of \<open>new URL\<close> in a response, when there is one.\<close>

fun redirectTarget :: "thrown + response option \<Rightarrow> string option" where
  "redirectTarget (Inl e) = None"
| "redirectTarget (Inr None) = None"
| "redirectTarget (Inr (Some (Redirect (NewURL input base)))) = Some input"

section \<open>hygraphClient.ts: the content request adapter\<close>

text \<open>
  \<open>hygraphClient(init).request(document, {locales: [locale]})\<close> hands one request to
  the \<open>graphql-request\<close> client: the endpoint from the environment, the \<open>init\<close> merged
  into the fetch configuration, the document and the variables. The client and the
  document (built by the generated \<open>graphql\<close> function) are parameters.
\<close>

record ('init, 'doc) outgoing =
  endpoint :: string
  fetch_init :: "'init option"
  query_document :: 'doc
  variables_locales :: "string list"

record ('init, 'result) client =
  getBlogposts :: "'init option \<Rightarrow> 'result"

definition makeRequest ::
  "(('init, 'doc) outgoing \<Rightarrow> 'result) \<Rightarrow> string \<Rightarrow> string \<Rightarrow> 'doc \<Rightarrow> 'init option \<Rightarrow> 'result" where
  "makeRequest request HYGRAPH_CONTENT_API_URL locale document init =
     request \<lparr>endpoint = HYGRAPH_CONTENT_API_URL, fetch_init = init,
              query_document = document, variables_locales = [locale]\<rparr>"

definition useHygraphClient ::
  "(('init, 'doc) outgoing \<Rightarrow> 'result) \<Rightarrow> string \<Rightarrow> 'doc \<Rightarrow> string \<Rightarrow> ('init, 'result) client" where
  "useHygraphClient request HYGRAPH_CONTENT_API_URL getBlogposts_document inputLocale =
     (let locale = toSource inputLocale
      in \<lparr>getBlogposts = makeRequest request HYGRAPH_CONTENT_API_URL locale getBlogposts_document\<rparr>)"

section \<open>Facts about \<open>replace\<close>\<close>

lemma replace_char_absent: "a \<notin> set x \<Longrightarrow> replace x [a] rep = x"
  by (induction x) auto

lemma replace_char_split:
  "replace (u @ a # v) [a] rep = u @ rep @ v" if "a \<notin> set u"
  using that by (induction u) auto

lemma count_replace_char:
  "a \<noteq> b \<Longrightarrow> count_list (replace x [a] [b]) a = count_list x a - 1"
  by (induction x) auto

lemma count_replace_char_other:
  "a \<noteq> b \<Longrightarrow> a \<in> set x \<Longrightarrow> count_list (replace x [a] [b]) b = Suc (count_list x b)"
  by (induction x) (auto simp: replace_char_absent)

lemma replace_round_trip:
  "a \<noteq> b \<Longrightarrow> b \<notin> set x \<Longrightarrow> replace (replace x [a] [b]) [b] [a] = x"
  by (induction x) (auto simp: replace_char_absent)

section \<open>Facts about the paths, the type \<open>Locale\<close> and the middleware\<close>

lemma takeWhile_until: "a \<notin> set l \<Longrightarrow> takeWhile (\<lambda>c. c \<noteq> a) (l @ a # t) = l"
  by (induction l) auto

lemma takeWhile_all: "a \<notin> set l \<Longrightarrow> takeWhile (\<lambda>c. c \<noteq> a) l = l"
  by (induction l) auto

lemma prefix_segment:
  assumes "CHR ''/'' \<notin> set l"
  shows "(prefix (l @ ''/'') rest \<or> rest = l) \<longleftrightarrow> takeWhile (\<lambda>c. c \<noteq> CHR ''/'') rest = l"
proof
  assume "prefix (l @ ''/'') rest \<or> rest = l"
  then show "takeWhile (\<lambda>c. c \<noteq> CHR ''/'') rest = l"
  proof
    assume "prefix (l @ ''/'') rest"
    then obtain t where "rest = l @ CHR ''/'' # t"
      by (auto simp: prefix_def)
    with assms show ?thesis
      by (simp add: takeWhile_until)
  next
    assume "rest = l"
    with assms show ?thesis
      by (simp add: takeWhile_all)
  qed
next
  assume tw: "takeWhile (\<lambda>c. c \<noteq> CHR ''/'') rest = l"
  show "prefix (l @ ''/'') rest \<or> rest = l"
  proof (cases "dropWhile (\<lambda>c. c \<noteq> CHR ''/'') rest")
    case Nil
    with tw takeWhile_dropWhile_id [of "\<lambda>c. c \<noteq> CHR ''/''" rest] show ?thesis
      by simp
  next
    case (Cons d ds)
    then have "d = CHR ''/''"
      using hd_dropWhile [of "\<lambda>c. c \<noteq> CHR ''/''" rest] by auto
    with Cons tw takeWhile_dropWhile_id [of "\<lambda>c. c \<noteq> CHR ''/''" rest]
    have "rest = l @ CHR ''/'' # ds"
      by simp
    then show ?thesis
      by simp
  qed
qed

lemma inferLR_None: "inferLR S T = None \<longleftrightarrow> S \<notin> set T"
  by (induction T) (auto split: option.splits)

lemma inferLR_Some: "inferLR S T = Some (L, R) \<Longrightarrow> T = L @ S # R \<and> S \<notin> set L"
  by (induction T arbitrary: L) (auto split: if_splits option.splits)

lemma Replace_all: "Replace T S D A = A @ map (\<lambda>c. if c = S then D else c) T"
proof (induction T S D A rule: Replace.induct)
  case (1 T S D A)
  show ?case
  proof (cases "inferLR S T")
    case None
    then have "S \<notin> set T"
      by (simp add: inferLR_None)
    then have "map (\<lambda>c. if c = S then D else c) T = T"
      by (induction T) auto
    with None show ?thesis
      by (subst Replace.simps) simp
  next
    case (Some x2)
    obtain L R where x2: "x2 = (L, R)"
      by (cases x2)
    with Some have T: "T = L @ S # R" and L: "S \<notin> set L"
      using inferLR_Some by blast+
    from L have mapL: "map (\<lambda>c. if c = S then D else c) L = L"
      by (induction L) auto
    have "Replace T S D A = Replace R S D (A @ L @ [D])"
      using Some x2 by (subst Replace.simps) simp
    also have "\<dots> = (A @ L @ [D]) @ map (\<lambda>c. if c = S then D else c) R"
      using "1.IH" [OF Some x2 [symmetric]] .
    also have "\<dots> = A @ map (\<lambda>c. if c = S then D else c) (L @ S # R)"
      by (simp add: mapL)
    also have "\<dots> = A @ map (\<lambda>c. if c = S then D else c) T"
      using T by simp
    finally show ?thesis .
  qed
qed

lemma map_sep_fixed:
  "D \<notin> set w \<Longrightarrow> S \<notin> set w \<Longrightarrow> map (\<lambda>c. if c = S then D else c) h = w \<longleftrightarrow> h = w"
proof (induction h arbitrary: w)
  case Nil
  then show ?case by auto
next
  case (Cons a h)
  show ?case
  proof (cases w)
    case Nil
    then show ?thesis by simp
  next
    case (Cons b v)
    with Cons.prems have "D \<notin> set v" "S \<notin> set v" "b \<noteq> D" "b \<noteq> S"
      by auto
    with Cons.IH [of v] Cons show ?thesis
      by auto
  qed
qed

lemma LocaleType_en:
  "assignable ''en'' (LocaleType enum) \<longleftrightarrow> enum = [] \<or> ''en'' \<in> set enum"
proof -
  have "''en'' = map (\<lambda>c. if c = CHR ''_'' then CHR ''-'' else c) h \<longleftrightarrow> h = ''en''" for h
    using map_sep_fixed [of "CHR ''-''" "''en''" "CHR ''_''" h] by auto
  then show ?thesis
    by (simp add: LocaleType_def Replace_all image_iff)
qed

lemma i18n_module_eq:
  "i18n_module enum =
     (if enum = [] \<or> ''en'' \<in> set enum
      then Inr \<lparr>locales = map (\<lambda>entry. replace entry ''_'' ''-'') enum, defaultLocale = ''en''\<rparr>
      else Inl (NotAssignable ''en''))"
  by (simp add: i18n_module_def LocaleType_en defaultLocale_const_def locales_of_def
      toStandard_def)

lemma i18n_module_default_member:
  assumes "i18n_module enum = Inr reg" and "enum \<noteq> []"
  shows "defaultLocale reg \<in> set (locales reg)"
proof -
  from assms have en: "''en'' \<in> set enum"
    and reg: "reg = \<lparr>locales = map (\<lambda>entry. replace entry ''_'' ''-'') enum, defaultLocale = ''en''\<rparr>"
    by (auto simp: i18n_module_eq split: if_splits)
  from en have "replace ''en'' ''_'' ''-'' \<in> set (map (\<lambda>entry. replace entry ''_'' ''-'') enum)"
    by (simp add: image_iff del: replace.simps) blast
  then show ?thesis
    by (simp add: reg)
qed

lemma toStandard_eq_en: "toStandard h = ''en'' \<longleftrightarrow> h = ''en''"
proof (cases "CHR ''_'' \<in> set h")
  case True
  then have "count_list (toStandard h) (CHR ''-'') = Suc (count_list h (CHR ''-''))"
    using count_replace_char_other [of "CHR ''_''" "CHR ''-''" h] by (simp add: toStandard_def)
  then have "count_list (toStandard h) (CHR ''-'') \<noteq> 0"
    by simp
  then have "CHR ''-'' \<in> set (toStandard h)"
    by (simp only: count_list_0_iff not_not)
  moreover have "CHR ''-'' \<notin> set ''en''"
    by simp
  ultimately have l: "toStandard h \<noteq> ''en''"
    by metis
  have "CHR ''_'' \<notin> set ''en''"
    by simp
  with True have r: "h \<noteq> ''en''"
    by metis
  from l r show ?thesis
    by simp
next
  case False
  then have "toStandard h = h"
    by (simp add: toStandard_def replace_char_absent)
  then show ?thesis
    by simp
qed

lemma locales_of_en: "''en'' \<in> set (locales_of enum) \<longleftrightarrow> ''en'' \<in> set enum"
proof -
  have "set (locales_of enum) = toStandard ` set enum"
    by (simp add: locales_of_def)
  then show ?thesis
    using toStandard_eq_en by (metis (no_types, lifting) image_iff)
qed

lemma middleware_missing:
  "pathnameIsMissingLocale reg (nextUrl_pathname req) \<Longrightarrow>
   middleware lib reg req =
     (case fst (getLocale lib reg req) of
        Inl e \<Rightarrow> Inl e
      | Inr l \<Rightarrow> Inr (Some (Redirect (NewURL (buildRedirectTarget (nextUrl_pathname req) l)
          (request_url req)))),
      snd (getLocale lib reg req))"
  by (simp add: middleware_def Let_def split: prod.splits sum.splits)

lemma middleware_present:
  "\<not> pathnameIsMissingLocale reg (nextUrl_pathname req) \<Longrightarrow>
   middleware lib reg req = (Inr None, [])"
  by (simp add: middleware_def)



section \<open>The middleware\<close>

text \<open>
  C1 (as amended). For every request pathname and every locale, the redirect target the
  middleware builds starts with \<open>/<locale>/\<close> and ends with the pathname, which is
  carried over as it is. When the pathname carries no registered locale, the target of
  the response is the one built from the request's pathname and the locale that the
  negotiation returned. It is built from the path component and the locale only: two
  requests with the same pathname and headers get the same target, whatever their URLs
  (and so their query strings) are.
\<close>

theorem buildRedirectTarget_shape:
  "prefix (''/'' @ locale @ ''/'') (buildRedirectTarget pathname locale) \<and>
   suffix pathname (buildRedirectTarget pathname locale) \<and>
   (\<not> hasLocalePrefix (nextUrl_pathname req) reg \<longrightarrow>
      redirectTarget (fst (middleware lib reg req)) =
        (case fst (getLocale lib reg req) of
           Inl e \<Rightarrow> None
         | Inr l \<Rightarrow> Some (buildRedirectTarget (nextUrl_pathname req) l))) \<and>
   (nextUrl_pathname req' = nextUrl_pathname req \<and> request_headers req' = request_headers req \<longrightarrow>
      redirectTarget (fst (middleware lib reg req')) = redirectTarget (fst (middleware lib reg req)))"
proof -
  have p: "prefix (''/'' @ locale @ ''/'') (buildRedirectTarget pathname locale)"
    by (simp add: buildRedirectTarget_def)
  have s: "suffix pathname (buildRedirectTarget pathname locale)"
    unfolding buildRedirectTarget_def by (metis append.assoc suffixI)
  have t: "redirectTarget (fst (middleware lib reg r)) =
      (if pathnameIsMissingLocale reg (nextUrl_pathname r)
       then case fst (getLocale lib reg r) of
           Inl e \<Rightarrow> None
         | Inr l \<Rightarrow> Some (buildRedirectTarget (nextUrl_pathname r) l)
       else None)" for r
    by (simp add: middleware_missing middleware_present split: sum.splits)
  have g: "fst (getLocale lib reg req') = fst (getLocale lib reg req)"
    if "request_headers req' = request_headers req"
    using that by (simp add: getLocale_def Let_def)
  have d: "redirectTarget (fst (middleware lib reg req')) = redirectTarget (fst (middleware lib reg req))"
    if same: "nextUrl_pathname req' = nextUrl_pathname req" "request_headers req' = request_headers req"
    using g [OF same(2)] same(1) by (simp add: t split: sum.splits)
  from p s t [of req] d show ?thesis
    by (simp add: hasLocalePrefix_def)
qed

theorem buildRedirectTarget_shape_witness:
  "\<not> hasLocalePrefix ''/about'' \<lparr>locales = [''en'', ''pl-PL''], defaultLocale = ''en''\<rparr> \<and>
   prefix ''/pl-PL/'' (buildRedirectTarget ''/about'' ''pl-PL'') \<and>
   suffix ''/about'' (buildRedirectTarget ''/about'' ''pl-PL'') \<and>
   redirectTarget (fst (middleware
     \<lparr>Negotiator_languages = (\<lambda>headers. Inr [''pl-PL'', ''en'']),
      localematcher_match = (\<lambda>requested available default. Inr ''pl-PL'')\<rparr>
     \<lparr>locales = [''en'', ''pl-PL''], defaultLocale = ''en''\<rparr>
     \<lparr>request_url = ''http://localhost:3000/about?x=1'', nextUrl_pathname = ''/about'',
      request_headers = [(''accept-language'', ''pl-PL,en;q=0.5'')]\<rparr>)) =
   redirectTarget (fst (middleware
     \<lparr>Negotiator_languages = (\<lambda>headers. Inr [''pl-PL'', ''en'']),
      localematcher_match = (\<lambda>requested available default. Inr ''pl-PL'')\<rparr>
     \<lparr>locales = [''en'', ''pl-PL''], defaultLocale = ''en''\<rparr>
     \<lparr>request_url = ''http://localhost:3000/about'', nextUrl_pathname = ''/about'',
      request_headers = [(''accept-language'', ''pl-PL,en;q=0.5'')]\<rparr>))"
proof -
  have missing: "\<not> hasLocalePrefix ''/about'' \<lparr>locales = [''en'', ''pl-PL''], defaultLocale = ''en''\<rparr>"
    by (simp add: hasLocalePrefix_def pathnameIsMissingLocale_def startsWith_def)
  from missing
    buildRedirectTarget_shape [of "''pl-PL''" "''/about''"
      "\<lparr>request_url = ''http://localhost:3000/about'', nextUrl_pathname = ''/about'',
        request_headers = [(''accept-language'', ''pl-PL,en;q=0.5'')]\<rparr>"
      "\<lparr>locales = [''en'', ''pl-PL''], defaultLocale = ''en''\<rparr>"
      "\<lparr>Negotiator_languages = (\<lambda>headers. Inr [''pl-PL'', ''en'']),
        localematcher_match = (\<lambda>requested available default. Inr ''pl-PL'')\<rparr>"
      "\<lparr>request_url = ''http://localhost:3000/about?x=1'', nextUrl_pathname = ''/about'',
        request_headers = [(''accept-language'', ''pl-PL,en;q=0.5'')]\<rparr>"]
  show ?thesis
    by simp
qed

text \<open>
  The template puts a slash after the locale and the pathname brings its own: the target
  for \<open>/about\<close> and \<open>pl-PL\<close> is \<open>/pl-PL//about\<close>, not \<open>/pl-PL/about\<close>, and the
  query string of the request URL is not in it. The request carries
  \<open>Accept-Language: pl-PL,en;q=0.5\<close>, for which the libraries give the languages
  \<open>pl-PL\<close>, \<open>en\<close> and the match \<open>pl-PL\<close>.
\<close>

theorem buildRedirectTarget_counterexample:
  "buildRedirectTarget ''/about'' ''pl-PL'' = ''/pl-PL//about'' \<and>
   buildRedirectTarget ''/about'' ''pl-PL'' \<noteq> ''/'' @ ''pl-PL'' @ ''/about'' \<and>
   buildRedirectTarget ''/about?x=1'' ''pl-PL'' \<noteq> ''/pl-PL/about?x=1'' \<and>
   redirectTarget (fst (middleware
     \<lparr>Negotiator_languages = (\<lambda>headers. Inr [''pl-PL'', ''en'']),
      localematcher_match = (\<lambda>requested available default. Inr ''pl-PL'')\<rparr>
     \<lparr>locales = [''en'', ''pl-PL''], defaultLocale = ''en''\<rparr>
     \<lparr>request_url = ''http://localhost:3000/about?x=1'', nextUrl_pathname = ''/about'',
      request_headers = [(''accept-language'', ''pl-PL,en;q=0.5'')]\<rparr>)) = Some ''/pl-PL//about''"
  by (simp add: buildRedirectTarget_def middleware_def pathnameIsMissingLocale_def startsWith_def
      getLocale_def mapHeadersToObject_def Let_def)




text \<open>
  C4. \<open>hasLocalePrefix(path, registry)\<close> holds exactly when the path starts with
  \<open>/<locale>/\<close> or is \<open>/<locale>\<close> for some locale of the registry. When no
  registered locale holds a slash, this is to say that the first segment of the path is
  a registered locale: a locale that is only a prefix of the first segment, as \<open>en\<close> is
  of \<open>/english/about\<close>, does not match.
\<close>

theorem hasLocalePrefix_iff:
  "(hasLocalePrefix path reg \<longleftrightarrow>
      (\<exists>locale\<in>set (locales reg). prefix (''/'' @ locale @ ''/'') path \<or> path = ''/'' @ locale)) \<and>
   ((\<forall>locale\<in>set (locales reg). CHR ''/'' \<notin> set locale) \<longrightarrow>
      hasLocalePrefix (CHR ''/'' # rest) reg =
        (takeWhile (\<lambda>c. c \<noteq> CHR ''/'') rest \<in> set (locales reg)))"
proof -
  have iff: "hasLocalePrefix p reg \<longleftrightarrow>
      (\<exists>locale\<in>set (locales reg). prefix (''/'' @ locale @ ''/'') p \<or> p = ''/'' @ locale)" for p
    by (auto simp: hasLocalePrefix_def pathnameIsMissingLocale_def startsWith_def list_all_iff)
  have seg: "hasLocalePrefix (CHR ''/'' # rest) reg =
        (takeWhile (\<lambda>c. c \<noteq> CHR ''/'') rest \<in> set (locales reg))"
    if noslash: "\<forall>locale\<in>set (locales reg). CHR ''/'' \<notin> set locale"
  proof -
    have "hasLocalePrefix (CHR ''/'' # rest) reg \<longleftrightarrow>
        (\<exists>locale\<in>set (locales reg). prefix (locale @ ''/'') rest \<or> rest = locale)"
      by (simp add: iff)
    also have "\<dots> \<longleftrightarrow> (\<exists>locale\<in>set (locales reg). takeWhile (\<lambda>c. c \<noteq> CHR ''/'') rest = locale)"
      using noslash prefix_segment by blast
    also have "\<dots> \<longleftrightarrow> takeWhile (\<lambda>c. c \<noteq> CHR ''/'') rest \<in> set (locales reg)"
      by auto
    finally show ?thesis .
  qed
  from iff seg show ?thesis by blast
qed

theorem hasLocalePrefix_iff_witness:
  "CHR ''/'' \<notin> set ''en'' \<and> CHR ''/'' \<notin> set ''pl-PL'' \<and>
   hasLocalePrefix ''/en/about'' \<lparr>locales = [''en'', ''pl-PL''], defaultLocale = ''en''\<rparr> \<and>
   hasLocalePrefix ''/pl-PL'' \<lparr>locales = [''en'', ''pl-PL''], defaultLocale = ''en''\<rparr> \<and>
   \<not> hasLocalePrefix ''/english/about'' \<lparr>locales = [''en'', ''pl-PL''], defaultLocale = ''en''\<rparr>"
  using hasLocalePrefix_iff [of "''/en/about''" "\<lparr>locales = [''en'', ''pl-PL''], defaultLocale = ''en''\<rparr>" "''english/about''"]
    hasLocalePrefix_iff [of "''/pl-PL''" "\<lparr>locales = [''en'', ''pl-PL''], defaultLocale = ''en''\<rparr>" "''english/about''"]
  by simp




section \<open>The registry\<close>

text \<open>
  C3 (as amended). The construction of the registry is rejected, at build time and by
  the type annotation of the default, exactly when the enumeration has members and the
  default \<open>"en"\<close> is not in the derived sequence. The empty enumeration is accepted and
  gives the registry without locales and with the default \<open>"en"\<close>; an entry that holds
  a hyphen already is accepted as well. Whenever the construction succeeds, the sequence
  is that of the entries converted by \<open>replace("_", "-")\<close> and the default is \<open>"en"\<close>,
  a member of the sequence when the enumeration has members.
\<close>

theorem i18n_module_result:
  "i18n_module enum =
     (if enum = [] \<or> ''en'' \<in> set enum
      then Inr \<lparr>locales = map (\<lambda>entry. replace entry ''_'' ''-'') enum, defaultLocale = ''en''\<rparr>
      else Inl (NotAssignable ''en'')) \<and>
   (isl (i18n_module enum) \<longleftrightarrow> enum \<noteq> [] \<and> defaultLocale_const \<notin> set (locales_of enum)) \<and>
   i18n_module [] = Inr \<lparr>locales = [], defaultLocale = ''en''\<rparr> \<and>
   (\<forall>reg. enum \<noteq> [] \<and> i18n_module enum = Inr reg \<longrightarrow> defaultLocale reg \<in> set (locales reg))"
proof -
  have a: "isl (i18n_module enum) \<longleftrightarrow> enum \<noteq> [] \<and> defaultLocale_const \<notin> set (locales_of enum)"
    by (simp add: i18n_module_eq locales_of_en defaultLocale_const_def)
  have b: "i18n_module [] = Inr \<lparr>locales = [], defaultLocale = ''en''\<rparr>"
    by (simp add: i18n_module_eq)
  from i18n_module_eq [of enum] a b i18n_module_default_member show ?thesis
    by blast
qed

theorem i18n_module_result_witness:
  "i18n_module [''en'', ''pl_PL''] = Inr \<lparr>locales = [''en'', ''pl-PL''], defaultLocale = ''en''\<rparr> \<and>
   i18n_module [''pl_PL''] = Inl (NotAssignable ''en'') \<and>
   defaultLocale \<lparr>locales = [''en'', ''pl-PL''], defaultLocale = ''en''\<rparr>
     \<in> set (locales \<lparr>locales = [''en'', ''pl-PL''], defaultLocale = ''en''\<rparr>)"
  using i18n_module_result [of "[''en'', ''pl_PL'']"] i18n_module_result [of "[''pl_PL'']"]
  by simp

text \<open>
  The enumeration without members is accepted, with a default that is in no sequence,
  and so is an enumeration with an entry that holds the standard separator already.
\<close>

theorem i18n_module_hyphen_counterexample:
  "i18n_module [] = Inr \<lparr>locales = [], defaultLocale = ''en''\<rparr> \<and>
   CHR ''-'' \<in> set ''pl-PL'' \<and>
   i18n_module [''en'', ''pl-PL''] = Inr \<lparr>locales = [''en'', ''pl-PL''], defaultLocale = ''en''\<rparr>"
  by (simp add: i18n_module_def LocaleType_def Replace_all defaultLocale_const_def locales_of_def
      toStandard_def)

section \<open>The two conversions\<close>

text \<open>
  C7. A source-form identifier (no hyphen) with at most one underscore, converted to the
  standard form by the registry's \<open>replace("_", "-")\<close> and back by the adapter's
  \<open>replace("-", "_")\<close>, is the identifier again; and a standard-form identifier (no
  underscore) with at most one hyphen, converted to the source form and back, is the
  identifier again.
\<close>

theorem conversion_round_trip:
  "(isSourceForm x \<and> count_list x (CHR ''_'') \<le> 1 \<longrightarrow> toSource (toStandard x) = x) \<and>
   (isStandardForm y \<and> count_list y (CHR ''-'') \<le> 1 \<longrightarrow> toStandard (toSource y) = y)"
  by (simp add: isSourceForm_def isStandardForm_def toSource_def toStandard_def
      replace_round_trip)

theorem conversion_round_trip_witness:
  "isSourceForm ''pl_PL'' \<and> count_list ''pl_PL'' (CHR ''_'') \<le> 1 \<and>
   toStandard ''pl_PL'' = ''pl-PL'' \<and> toSource (toStandard ''pl_PL'') = ''pl_PL'' \<and>
   isStandardForm ''pl-PL'' \<and> count_list ''pl-PL'' (CHR ''-'') \<le> 1 \<and>
   toSource ''pl-PL'' = ''pl_PL'' \<and> toStandard (toSource ''pl-PL'') = ''pl-PL''"
  using conversion_round_trip [of "''pl_PL''" "''pl-PL''"]
  by (simp add: isSourceForm_def isStandardForm_def toSource_def toStandard_def)

text \<open>
  C10. Each conversion replaces the first separator only. \<open>'zh_Hant_TW'\<close> becomes
  \<open>'zh-Hant_TW'\<close> in the registry and \<open>'zh-Hant-TW'\<close> becomes \<open>'zh_Hant-TW'\<close> in the
  adapter; in general an input with two or more separators loses exactly one of them,
  so the result still holds a separator of the old kind.
\<close>

theorem conversion_first_occurrence_only:
  "locales_of [''zh_Hant_TW''] = [''zh-Hant_TW''] \<and>
   toSource ''zh-Hant-TW'' = ''zh_Hant-TW'' \<and>
   (2 \<le> count_list x (CHR ''_'') \<longrightarrow>
      CHR ''_'' \<in> set (toStandard x) \<and>
      count_list (toStandard x) (CHR ''_'') = count_list x (CHR ''_'') - 1) \<and>
   (2 \<le> count_list y (CHR ''-'') \<longrightarrow>
      CHR ''-'' \<in> set (toSource y) \<and>
      count_list (toSource y) (CHR ''-'') = count_list y (CHR ''-'') - 1)"
proof -
  have ex1: "locales_of [''zh_Hant_TW''] = [''zh-Hant_TW'']"
    by (simp add: locales_of_def toStandard_def)
  have ex2: "toSource ''zh-Hant-TW'' = ''zh_Hant-TW''"
    by (simp add: toSource_def)
  have one: "count_list (replace z [a] [b]) a = count_list z a - 1 \<and> a \<in> set (replace z [a] [b])"
    if "a \<noteq> b" "2 \<le> count_list z a" for a b :: char and z
  proof -
    have c: "count_list (replace z [a] [b]) a = count_list z a - 1"
      using that(1) by (rule count_replace_char)
    with that(2) have "count_list (replace z [a] [b]) a \<noteq> 0"
      by simp
    then have "a \<in> set (replace z [a] [b])"
      by (simp add: count_list_0_iff)
    with c show ?thesis by simp
  qed
  have std: "2 \<le> count_list x (CHR ''_'') \<longrightarrow>
      CHR ''_'' \<in> set (toStandard x) \<and>
      count_list (toStandard x) (CHR ''_'') = count_list x (CHR ''_'') - 1"
    using one [of "CHR ''_''" "CHR ''-''" x] by (simp add: toStandard_def)
  have src: "2 \<le> count_list y (CHR ''-'') \<longrightarrow>
      CHR ''-'' \<in> set (toSource y) \<and>
      count_list (toSource y) (CHR ''-'') = count_list y (CHR ''-'') - 1"
    using one [of "CHR ''-''" "CHR ''_''" y] by (simp add: toSource_def)
  from ex1 ex2 std src show ?thesis by blast
qed

theorem conversion_first_occurrence_only_witness:
  "2 \<le> count_list ''zh_Hant_TW'' (CHR ''_'') \<and> CHR ''_'' \<in> set (toStandard ''zh_Hant_TW'') \<and>
   2 \<le> count_list ''zh-Hant-TW'' (CHR ''-'') \<and> CHR ''-'' \<in> set (toSource ''zh-Hant-TW'')"
  using conversion_first_occurrence_only [of "''zh_Hant_TW''" "''zh-Hant-TW''"]
  by simp

section \<open>The content request adapter\<close>

text \<open>
  C8 (as amended). The query operation hands to the GraphQL client one request whose
  \<open>locales\<close> variable is the list of exactly one element, the input locale with its
  first hyphen replaced by an underscore. For an input in standard form with at most one
  hyphen that element is in source form, and the registry's conversion gives the input
  back from it. For an input with two or more hyphens the element is not in source form.
\<close>

theorem useHygraphClient_locales:
  "getBlogposts (useHygraphClient request env doc inputLocale) init =
     request \<lparr>endpoint = env, fetch_init = init, query_document = doc,
              variables_locales = [toSource inputLocale]\<rparr> \<and>
   (isStandardForm inputLocale \<and> count_list inputLocale (CHR ''-'') \<le> 1 \<longrightarrow>
      (\<exists>converted.
         variables_locales (getBlogposts (useHygraphClient (\<lambda>r. r) env doc inputLocale) init)
           = [converted] \<and>
         isSourceForm converted \<and> toStandard converted = inputLocale)) \<and>
   (2 \<le> count_list inputLocale (CHR ''-'') \<longrightarrow> \<not> isSourceForm (toSource inputLocale))"
proof -
  have cnt: "count_list (toSource inputLocale) (CHR ''-'') = count_list inputLocale (CHR ''-'') - 1"
    using count_replace_char [of "CHR ''-''" "CHR ''_''" inputLocale] by (simp add: toSource_def)
  have b: "isSourceForm (toSource inputLocale) \<and> toStandard (toSource inputLocale) = inputLocale"
    if std: "isStandardForm inputLocale" and one: "count_list inputLocale (CHR ''-'') \<le> 1"
  proof -
    from cnt one have "count_list (toSource inputLocale) (CHR ''-'') = 0"
      by simp
    then have "CHR ''-'' \<notin> set (toSource inputLocale)"
      by (simp add: count_list_0_iff)
    then have src: "isSourceForm (toSource inputLocale)"
      by (simp add: isSourceForm_def)
    from std have "toStandard (toSource inputLocale) = inputLocale"
      using replace_round_trip [of "CHR ''-''" "CHR ''_''" inputLocale]
      by (simp add: isStandardForm_def toStandard_def toSource_def)
    with src show ?thesis
      by simp
  qed
  have c: "\<not> isSourceForm (toSource inputLocale)" if "2 \<le> count_list inputLocale (CHR ''-'')"
  proof -
    from cnt that have "count_list (toSource inputLocale) (CHR ''-'') \<noteq> 0"
      by simp
    then have "CHR ''-'' \<in> set (toSource inputLocale)"
      by (simp add: count_list_0_iff)
    then show ?thesis
      by (simp add: isSourceForm_def)
  qed
  from b c show ?thesis
    by (simp add: useHygraphClient_def makeRequest_def Let_def)
qed

theorem useHygraphClient_locales_witness:
  "isStandardForm ''pl-PL'' \<and> count_list ''pl-PL'' (CHR ''-'') \<le> 1 \<and>
   getBlogposts (useHygraphClient (\<lambda>r. r) ''https://api.example/content'' ''getBlogposts'' ''pl-PL'')
       (None :: unit option) =
     \<lparr>endpoint = ''https://api.example/content'', fetch_init = None,
      query_document = ''getBlogposts'', variables_locales = [''pl_PL'']\<rparr> \<and>
   isSourceForm ''pl_PL'' \<and> toStandard ''pl_PL'' = ''pl-PL'' \<and>
   2 \<le> count_list ''zh-Hant-TW'' (CHR ''-'') \<and> \<not> isSourceForm (toSource ''zh-Hant-TW'')"
  using useHygraphClient_locales [of "\<lambda>r. r" "''https://api.example/content''" "''getBlogposts''"
      "''pl-PL''" "None :: unit option"]
    useHygraphClient_locales [of "\<lambda>r. r" "''https://api.example/content''" "''getBlogposts''"
      "''zh-Hant-TW''" "None :: unit option"]
  by (simp add: isSourceForm_def isStandardForm_def toSource_def toStandard_def)

text \<open>
  The input \<open>zh-Hant-TW\<close> is in standard form, and what is sent for it, \<open>zh_Hant-TW\<close>,
  is not in source form.
\<close>

theorem useHygraphClient_locales_counterexample:
  "isStandardForm ''zh-Hant-TW'' \<and>
   variables_locales (getBlogposts
      (useHygraphClient (\<lambda>r. r) ''https://api.example/content'' ''getBlogposts'' ''zh-Hant-TW'')
      (None :: unit option)) = [''zh_Hant-TW''] \<and>
   \<not> isSourceForm ''zh_Hant-TW''"
  by (simp add: isStandardForm_def isSourceForm_def useHygraphClient_def makeRequest_def
      toSource_def Let_def)

end
